theory Spec2Isabelle
  imports Main "HOL-Library.Sublist" "HOL-Library.Word"
begin

section \<open>check\_rtl\_meaning.py: the RTL prefix and suffix dictionary look-up\<close>

text \<open>
  The script reads \<open>rtl_dictionary.json\<close>, looks a prefix and a suffix up in it and
  lists it, as the switches of the command line ask. The embedding follows the script
  top to bottom. What the script takes from Python's library and from its surroundings
  is an explicit environment: \<open>sys.argv\<close>, the namespace \<open>argparse\<close> makes of it, the
  files that can be opened, what \<open>json.load\<close> decodes their content to, and \<open>str()\<close> of
  a value that is not a string. An uncaught exception and \<open>exit()\<close> are the two ways a
  run ends.
\<close>

subsection \<open>Values, exceptions, the environment\<close>

text \<open>
  What \<open>json.load\<close> returns: \<open>None\<close>, a \<open>bool\<close>, an \<open>int\<close>, a \<open>float\<close> (its 64 bits),
  a \<open>str\<close>, a \<open>list\<close> or a \<open>dict\<close>. A \<open>dict\<close> is the list of its items in iteration
  order; its keys are strings, and pairwise distinct in a value that Python built.
\<close>

datatype json =
    JNull
  | JBool bool
  | JInt int
  | JFloat "64 word"
  | JStr string
  | JArr "json list"
  | JObj "(string \<times> json) list"

datatype py_error =
    FileNotFoundError
  | KeyError string
  | TypeError
  | AttributeError

text \<open>The namespace of \<open>parser.parse_args()\<close>: \<open>None\<close> for a switch that was not given.\<close>

record args =
  args_prefix :: "string option"
  args_suffix :: "string option"
  args_list_all :: bool
  args_path_to_dict :: "string option"

text \<open>
  \<open>argparse\<close> maps \<open>sys.argv[1:]\<close> to a namespace or ends the run itself with an exit
  code (\<open>Inl\<close>); \<open>files\<close> gives, for a path string, the content \<open>open\<close> reads there,
  \<open>None\<close> where no file is (a run opens one path string, and only \<open>files\<close> at this string
  is ever used: that two strings may name one file plays no part; the other failures of
  \<open>open\<close> are left out); \<open>json_load\<close> is \<open>None\<close> where \<open>json.load\<close> raises; \<open>py_repr\<close> is
  \<open>str()\<close> on the values that are not strings. What \<open>argparse\<close> writes itself (a usage
  line, the help) is not part of a run's output here: the output is what the script's
  own \<open>print\<close> calls write.
\<close>

record env =
  sys_argv :: "string list"
  argparse :: "string list \<Rightarrow> nat + args"
  files :: "string \<Rightarrow> string option"
  json_load :: "string \<Rightarrow> json option"
  py_repr :: "json \<Rightarrow> string"

datatype outcome = Exit nat | Uncaught py_error

subsection \<open>The general-info strings\<close>

definition errorTag :: string where
  "errorTag = CHR 0x09 # ''***Error: ''"

definition successTag :: string where
  "successTag = CHR 0x09 # ''***Success: ''"

definition infoTag :: string where
  "infoTag = CHR 0x09 # ''***Info: ''"

definition prefixSectionHeader :: string where
  "prefixSectionHeader =
     ''=======================================\<newline>'' @
     ''            Prefixes\<newline>'' @
     ''=======================================\<newline>\<newline>''"

definition suffixSectionHeader :: string where
  "suffixSectionHeader =
     ''\<newline>=======================================\<newline>'' @
     ''            Suffixes\<newline>'' @
     ''=======================================\<newline>\<newline>''"

text \<open>
  One constructor for each message template of the script and for the block that
  \<open>--list_all\<close> builds, with the arguments \<open>format\<close> is given; a run's output is the list
  of the messages its \<open>print\<close> calls are given, in order.
\<close>

datatype message =
    NoArgsMsg
  | FileReadAttemptMsg string
  | FileEmptyMsg string
  | UnsupportedScriptUsageMsg
  | PrefixSuffixNotFoundMsg string string string
  | ExplanationMsg string json
  | OutputMsg string

text \<open>\<open>str(v)\<close>, as \<open>format\<close> and an f-string apply it to a field.\<close>

fun py_str :: "(json \<Rightarrow> string) \<Rightarrow> json \<Rightarrow> string" where
  "py_str r (JStr s) = s"
| "py_str r v = r v"

text \<open>The text a message puts on the standard output (\<open>print\<close> adds the line end).\<close>

fun text_of :: "(json \<Rightarrow> string) \<Rightarrow> message \<Rightarrow> string" where
  "text_of r NoArgsMsg = errorTag @ ''No input arguments were specified.''"
| "text_of r (FileReadAttemptMsg p) = infoTag @ ''Trying to read in '' @ p"
| "text_of r (FileEmptyMsg p) =
     infoTag @ ''The file at '' @ p @ '' is empty... creating the dictionary from scratch''"
| "text_of r UnsupportedScriptUsageMsg =
     errorTag @
     ''Only one switch (--prefix, --suffix, or --list_all) should be supplied at a time''"
| "text_of r (PrefixSuffixNotFoundMsg kind k f) =
     infoTag @ ''The '' @ kind @ '' '' @ k @ '' could not be found in '' @ f"
| "text_of r (ExplanationMsg k v) = k @ '': '' @ py_str r v"
| "text_of r (OutputMsg s) = s"

subsection \<open>Python's operations on the loaded value\<close>

text \<open>\<open>d[key]\<close> with a string key.\<close>

fun py_getitem :: "json \<Rightarrow> string \<Rightarrow> py_error + json" where
  "py_getitem (JObj kvs) key =
     (case map_of kvs key of None \<Rightarrow> Inl (KeyError key) | Some v \<Rightarrow> Inr v)"
| "py_getitem v key = Inl TypeError"

text \<open>
  \<open>key in d\<close> with a string key: a key of a \<open>dict\<close>, an element of a \<open>list\<close>, a
  substring of a \<open>str\<close>; a \<open>TypeError\<close> on a value that is not a container.
\<close>

fun py_contains :: "string \<Rightarrow> json \<Rightarrow> py_error + bool" where
  "py_contains key (JObj kvs) = Inr (key \<in> set (map fst kvs))"
| "py_contains key (JArr xs) = Inr (JStr key \<in> set xs)"
| "py_contains key (JStr s) = Inr (sublist key s)"
| "py_contains key v = Inl TypeError"

text \<open>\<open>d.items()\<close>: only a \<open>dict\<close> has the method.\<close>

fun py_items :: "json \<Rightarrow> py_error + (string \<times> json) list" where
  "py_items (JObj kvs) = Inr kvs"
| "py_items v = Inl AttributeError"

subsection \<open>parsingArguments and readInDictionary\<close>

definition parsingArguments :: "env \<Rightarrow> nat + args" where
  "parsingArguments e = argparse e (tl (sys_argv e))"

definition defaultDictionary :: json where
  "defaultDictionary = JObj
     [(''Prefixes'', JObj
        [(''aref_'', JStr ''Indicates that the signal is to do with the auto-refresh logic.''),
         (''mmu_'', JStr ''Indicates that the signal is coming from the memory-management unit.'')]),
      (''Suffixes'', JObj
        [(''_req'', JStr ''Indicates a request line.''),
         (''_ctrl'', JStr ''Indicates a control signal or a signal from a control block.'')])]"

text \<open>
  \<open>open\<close> stands outside the \<open>try\<close>: where no file is, its error leaves the function and
  nothing has been printed. Inside, the bare \<open>except\<close> turns every failure of
  \<open>json.load\<close> into the built-in dictionary.
\<close>

definition readInDictionary :: "env \<Rightarrow> string \<Rightarrow> message list \<times> (py_error + json)" where
  "readInDictionary e pathToFile =
     (case files e pathToFile of
        None \<Rightarrow> ([], Inl FileNotFoundError)
      | Some p \<Rightarrow>
          (case json_load e p of
             Some dictionary \<Rightarrow> ([FileReadAttemptMsg pathToFile], Inr dictionary)
           | None \<Rightarrow>
               ([FileReadAttemptMsg pathToFile, FileEmptyMsg pathToFile],
                Inr defaultDictionary)))"

subsection \<open>The script\<close>

text \<open>
  \<open>if args.prefix:\<close> tests the truth value of the switch: \<open>None\<close> and the empty string
  are both false. \<open>supplied\<close> is the variable the branch assigns (\<open>prefix\<close>, \<open>suffix\<close>,
  \<open>filePath\<close>) where the flag beside it (\<open>lookUpPrefix\<close>, \<open>lookUpSuffix\<close>,
  \<open>pathSupplied\<close>) is set, and \<open>None\<close> where the flag stays \<open>False\<close>.
\<close>

fun supplied :: "string option \<Rightarrow> string option" where
  "supplied None = None"
| "supplied (Some v) = (if v = [] then None else Some v)"

definition fileName :: string where
  "fileName = ''rtl_dictionary.json''"

definition filePath :: "args \<Rightarrow> string" where
  "filePath a = (case supplied (args_path_to_dict a) of Some p \<Rightarrow> p | None \<Rightarrow> ''./'')"

text \<open>
  Step 2, once for the prefix (\<open>section = Prefixes\<close>, \<open>kind = prefix\<close>) and once for the
  suffix: the two blocks of the script differ in these two strings only.
\<close>

definition lookUp :: "string \<Rightarrow> string \<Rightarrow> json \<Rightarrow> string \<Rightarrow> py_error + message" where
  "lookUp section kind rtlDictionary key =
     (case py_getitem rtlDictionary section of
        Inl err \<Rightarrow> Inl err
      | Inr entries \<Rightarrow>
          (case py_contains key entries of
             Inl err \<Rightarrow> Inl err
           | Inr found \<Rightarrow>
               if found then
                 (case py_getitem entries key of
                    Inl err \<Rightarrow> Inl err
                  | Inr explanation \<Rightarrow> Inr (ExplanationMsg key explanation))
               else Inr (PrefixSuffixNotFoundMsg kind key fileName)))"

definition lookUpPrefix :: "args \<Rightarrow> json \<Rightarrow> py_error + message list" where
  "lookUpPrefix a rtlDictionary =
     (case supplied (args_prefix a) of
        None \<Rightarrow> Inr []
      | Some prefix' \<Rightarrow>
          (case lookUp ''Prefixes'' ''prefix'' rtlDictionary prefix' of
             Inl err \<Rightarrow> Inl err
           | Inr m \<Rightarrow> Inr [m]))"

definition lookUpSuffix :: "args \<Rightarrow> json \<Rightarrow> py_error + message list" where
  "lookUpSuffix a rtlDictionary =
     (case supplied (args_suffix a) of
        None \<Rightarrow> Inr []
      | Some suffix' \<Rightarrow>
          (case lookUp ''Suffixes'' ''suffix'' rtlDictionary suffix' of
             Inl err \<Rightarrow> Inl err
           | Inr m \<Rightarrow> Inr [m]))"

text \<open>The two \<open>for\<close> loops of the listing: \<open>outputMsg += f"{key}: {value}\n"\<close>.\<close>

fun addEntries :: "(json \<Rightarrow> string) \<Rightarrow> (string \<times> json) list \<Rightarrow> string \<Rightarrow> string" where
  "addEntries r [] outputMsg = outputMsg"
| "addEntries r ((key, v) # items) outputMsg =
     addEntries r items (outputMsg @ key @ '': '' @ py_str r v @ ''\<newline>'')"

definition printOutDictionary :: "env \<Rightarrow> args \<Rightarrow> json \<Rightarrow> py_error + message list" where
  "printOutDictionary e a rtlDictionary =
     (if args_list_all a then
        (case py_getitem rtlDictionary ''Prefixes'' of
           Inl err \<Rightarrow> Inl err
         | Inr prefixList \<Rightarrow>
             (case py_getitem rtlDictionary ''Suffixes'' of
                Inl err \<Rightarrow> Inl err
              | Inr suffixList \<Rightarrow>
                  (case py_items prefixList of
                     Inl err \<Rightarrow> Inl err
                   | Inr prefixItems \<Rightarrow>
                       (case py_items suffixList of
                          Inl err \<Rightarrow> Inl err
                        | Inr suffixItems \<Rightarrow>
                            Inr [OutputMsg
                              (addEntries (py_repr e) suffixItems
                                 (addEntries (py_repr e) prefixItems prefixSectionHeader
                                    @ suffixSectionHeader))]))))
      else Inr [])"

text \<open>
  The three steps after the dictionary is read, each printing what it has before the
  next starts: an exception ends the run with the output so far.
\<close>

definition steps :: "env \<Rightarrow> args \<Rightarrow> json \<Rightarrow> message list \<times> outcome" where
  "steps e a rtlDictionary =
     (case lookUpPrefix a rtlDictionary of
        Inl err \<Rightarrow> ([], Uncaught err)
      | Inr out1 \<Rightarrow>
          (case lookUpSuffix a rtlDictionary of
             Inl err \<Rightarrow> (out1, Uncaught err)
           | Inr out2 \<Rightarrow>
               (case printOutDictionary e a rtlDictionary of
                  Inl err \<Rightarrow> (out1 @ out2, Uncaught err)
                | Inr out3 \<Rightarrow> (out1 @ out2 @ out3, Exit 0))))"

definition script :: "env \<Rightarrow> args \<Rightarrow> message list \<times> outcome" where
  "script e a =
     (case readInDictionary e (filePath a @ fileName) of
        (out0, Inl err) \<Rightarrow> (out0, Uncaught err)
      | (out0, Inr rtlDictionary) \<Rightarrow>
          (case steps e a rtlDictionary of (out, oc) \<Rightarrow> (out0 @ out, oc)))"

definition main :: "env \<Rightarrow> message list \<times> outcome" where
  "main e =
     (if length (sys_argv e) = 1 then ([NoArgsMsg], Exit 0)
      else
        (case parsingArguments e of
           Inl code \<Rightarrow> ([], Exit code)
         | Inr a \<Rightarrow> script e a))"

subsection \<open>Example runs\<close>

text \<open>
  The dictionary of the specification's example, one whose sections have the empty
  string for a key, and one without a \<open>Prefixes\<close> section; and a run's environment:
  the namespace \<open>argparse\<close> returns, one path with a file (or none) and the value the
  file's content decodes to (or none).
\<close>

definition exampleDictionary :: json where
  "exampleDictionary = JObj
     [(''Prefixes'', JObj [(''pq_'', JStr ''Placement Queue'')]),
      (''Suffixes'', JObj [(''_req'', JStr ''Request line'')])]"

definition emptyKeyDictionary :: json where
  "emptyKeyDictionary = JObj
     [(''Prefixes'', JObj [([], JStr ''No prefix'')]),
      (''Suffixes'', JObj [([], JStr ''No suffix'')])]"

definition suffixesOnlyDictionary :: json where
  "suffixesOnlyDictionary = JObj [(''Suffixes'', JObj [(''_req'', JStr ''Request line'')])]"

definition prefixesOnlyDictionary :: json where
  "prefixesOnlyDictionary = JObj [(''Prefixes'', JObj [(''pq_'', JStr ''Placement Queue'')])]"

definition exampleContent :: string where
  \<open>exampleContent =
     ''{"Prefixes": {"pq_": "Placement Queue"}, "Suffixes": {"_req": "Request line"}}''\<close>

definition emptyKeyContent :: string where
  \<open>emptyKeyContent = ''{"Prefixes": {"": "No prefix"}, "Suffixes": {"": "No suffix"}}''\<close>

definition suffixesOnlyContent :: string where
  \<open>suffixesOnlyContent = ''{"Suffixes": {"_req": "Request line"}}''\<close>

definition prefixesOnlyContent :: string where
  \<open>prefixesOnlyContent = ''{"Prefixes": {"pq_": "Placement Queue"}}''\<close>

definition exampleArgs :: "string option \<Rightarrow> string option \<Rightarrow> bool \<Rightarrow> string option \<Rightarrow> args" where
  "exampleArgs p s l d =
     \<lparr>args_prefix = p, args_suffix = s, args_list_all = l, args_path_to_dict = d\<rparr>"

definition exampleEnv ::
  "string list \<Rightarrow> args \<Rightarrow> string \<Rightarrow> string option \<Rightarrow> json option \<Rightarrow> env" where
  "exampleEnv argv a path content decoded =
     \<lparr>sys_argv = ''check_rtl_meaning.py'' # argv,
      argparse = (\<lambda>_. Inr a),
      files = (\<lambda>p. if p = path then content else None),
      json_load = (\<lambda>s. if Some s = content then decoded else None),
      py_repr = (\<lambda>_. ''?'')\<rparr>"

section \<open>Properties\<close>

subsection \<open>Auxiliary facts\<close>

lemma addEntries_concat:
  "addEntries r items acc =
     acc @ concat (map (\<lambda>(k, v). k @ '': '' @ py_str r v @ ''\<newline>'') items)"
  by (induction items arbitrary: acc) auto

lemma lookUp_dict:
  assumes "py_getitem D section = Inr (JObj kvs)"
  shows "lookUp section kind D key =
     Inr (case map_of kvs key of
            Some v \<Rightarrow> ExplanationMsg key v
          | None \<Rightarrow> PrefixSuffixNotFoundMsg kind key fileName)"
proof (cases "map_of kvs key")
  case None
  then have "key \<notin> fst ` set kvs" by (simp add: map_of_eq_None_iff)
  with None assms show ?thesis by (simp add: lookUp_def)
next
  case (Some v)
  then have "key \<in> fst ` set kvs" by (metis map_of_eq_None_iff option.distinct(1))
  with Some assms show ?thesis by (simp add: lookUp_def)
qed

lemma lookUp_missing_section:
  "section \<notin> set (map fst kvs) \<Longrightarrow> lookUp section kind (JObj kvs) key = Inl (KeyError section)"
  by (simp add: lookUp_def map_of_eq_None_iff [THEN iffD2])

lemma main_script:
  "length (sys_argv e) \<noteq> 1 \<Longrightarrow> parsingArguments e = Inr a \<Longrightarrow> main e = script e a"
  by (simp add: main_def)

lemma script_loaded:
  "readInDictionary e (filePath a @ fileName) = (out0, Inr D) \<Longrightarrow>
   script e a = (out0 @ fst (steps e a D), snd (steps e a D))"
  by (simp add: script_def split: prod.splits)

lemma steps_dict:
  assumes "py_getitem D ''Prefixes'' = Inr (JObj ps)"
    and "py_getitem D ''Suffixes'' = Inr (JObj ss)"
  shows "steps e a D =
    ((case supplied (args_prefix a) of
        None \<Rightarrow> []
      | Some k \<Rightarrow>
          [case map_of ps k of
             Some v \<Rightarrow> ExplanationMsg k v
           | None \<Rightarrow> PrefixSuffixNotFoundMsg ''prefix'' k fileName]) @
     (case supplied (args_suffix a) of
        None \<Rightarrow> []
      | Some k \<Rightarrow>
          [case map_of ss k of
             Some v \<Rightarrow> ExplanationMsg k v
           | None \<Rightarrow> PrefixSuffixNotFoundMsg ''suffix'' k fileName]) @
     (if args_list_all a then
        [OutputMsg
          (prefixSectionHeader @
           concat (map (\<lambda>(k, v). k @ '': '' @ py_str (py_repr e) v @ ''\<newline>'') ps) @
           suffixSectionHeader @
           concat (map (\<lambda>(k, v). k @ '': '' @ py_str (py_repr e) v @ ''\<newline>'') ss))]
      else []),
     Exit 0)"
  using assms
  by (simp add: steps_def lookUpPrefix_def lookUpSuffix_def printOutDictionary_def
      lookUp_dict addEntries_concat split: option.splits)

lemma main_dict:
  assumes "length (sys_argv e) \<noteq> 1"
    and "parsingArguments e = Inr a"
    and "readInDictionary e (filePath a @ fileName) = (out0, Inr D)"
    and "py_getitem D ''Prefixes'' = Inr (JObj ps)"
    and "py_getitem D ''Suffixes'' = Inr (JObj ss)"
  shows "main e =
    (out0 @
     (case supplied (args_prefix a) of
        None \<Rightarrow> []
      | Some k \<Rightarrow>
          [case map_of ps k of
             Some v \<Rightarrow> ExplanationMsg k v
           | None \<Rightarrow> PrefixSuffixNotFoundMsg ''prefix'' k fileName]) @
     (case supplied (args_suffix a) of
        None \<Rightarrow> []
      | Some k \<Rightarrow>
          [case map_of ss k of
             Some v \<Rightarrow> ExplanationMsg k v
           | None \<Rightarrow> PrefixSuffixNotFoundMsg ''suffix'' k fileName]) @
     (if args_list_all a then
        [OutputMsg
          (prefixSectionHeader @
           concat (map (\<lambda>(k, v). k @ '': '' @ py_str (py_repr e) v @ ''\<newline>'') ps) @
           suffixSectionHeader @
           concat (map (\<lambda>(k, v). k @ '': '' @ py_str (py_repr e) v @ ''\<newline>'') ss))]
      else []),
     Exit 0)"
  by (simp add: main_script [OF assms(1,2)] script_loaded [OF assms(3)]
      steps_dict [OF assms(4,5)])

lemmas example_defs =
  exampleEnv_def exampleArgs_def exampleDictionary_def emptyKeyDictionary_def
  suffixesOnlyDictionary_def prefixesOnlyDictionary_def

lemmas run_defs =
  main_def parsingArguments_def script_def readInDictionary_def filePath_def fileName_def
  steps_def lookUpPrefix_def lookUpSuffix_def lookUp_def printOutDictionary_def
  prefixSectionHeader_def suffixSectionHeader_def

subsection \<open>Looking a prefix or a suffix up\<close>

text \<open>
  Claim C1, as amended. Let the run get past the check of the arguments, let the
  dictionary it loads have a \<open>Prefixes\<close> and a \<open>Suffixes\<close> section, and let \<open>k\<close> be a key of
  \<open>Prefixes\<close> that is not the empty string, with the explanation string \<open>x\<close>. Then
  \<open>--prefix k\<close> prints, right after the output of the loader, the explanation message of
  \<open>k\<close> and \<open>x\<close>, whose text is \<open>k\<close>, a colon, a space and \<open>x\<close>. The same holds for
  \<open>--suffix\<close> and the \<open>Suffixes\<close> section, after the output of the prefix look-up.
\<close>

theorem explanation_printed:
  assumes "length (sys_argv e) \<noteq> 1"
    and "parsingArguments e = Inr a"
    and "readInDictionary e (filePath a @ fileName) = (out0, Inr D)"
    and "py_getitem D ''Prefixes'' = Inr (JObj ps)"
    and "py_getitem D ''Suffixes'' = Inr (JObj ss)"
  shows "(args_prefix a = Some k \<and> k \<noteq> [] \<and> map_of ps k = Some (JStr x) \<longrightarrow>
            (\<exists>rest. fst (main e) = out0 @ ExplanationMsg k (JStr x) # rest) \<and>
            text_of r (ExplanationMsg k (JStr x)) = k @ '': '' @ x) \<and>
         (args_suffix a = Some k' \<and> k' \<noteq> [] \<and> map_of ss k' = Some (JStr x') \<longrightarrow>
            (\<exists>pre rest. fst (main e) = out0 @ pre @ ExplanationMsg k' (JStr x') # rest) \<and>
            text_of r (ExplanationMsg k' (JStr x')) = k' @ '': '' @ x')"
  by (auto simp: main_dict [OF assms])

text \<open>
  The run \<open>--prefix pq_ --suffix _req\<close> on the example dictionary prints
  \<open>pq_: Placement Queue\<close> and \<open>_req: Request line\<close>.
\<close>

theorem explanation_printed_witness:
  "(\<exists>rest.
      fst (main (exampleEnv [''--prefix'', ''pq_'', ''--suffix'', ''_req'']
                  (exampleArgs (Some ''pq_'') (Some ''_req'') False None)
                  ''./rtl_dictionary.json'' (Some exampleContent) (Some exampleDictionary))) =
      [FileReadAttemptMsg ''./rtl_dictionary.json''] @
      ExplanationMsg ''pq_'' (JStr ''Placement Queue'') # rest) \<and>
   text_of (\<lambda>_. []) (ExplanationMsg ''pq_'' (JStr ''Placement Queue'')) =
     ''pq_: Placement Queue'' \<and>
   (\<exists>pre rest.
      fst (main (exampleEnv [''--prefix'', ''pq_'', ''--suffix'', ''_req'']
                  (exampleArgs (Some ''pq_'') (Some ''_req'') False None)
                  ''./rtl_dictionary.json'' (Some exampleContent) (Some exampleDictionary))) =
      [FileReadAttemptMsg ''./rtl_dictionary.json''] @ pre @
      ExplanationMsg ''_req'' (JStr ''Request line'') # rest) \<and>
   text_of (\<lambda>_. []) (ExplanationMsg ''_req'' (JStr ''Request line'')) = ''_req: Request line''"
  using explanation_printed
    [of "exampleEnv [''--prefix'', ''pq_'', ''--suffix'', ''_req'']
           (exampleArgs (Some ''pq_'') (Some ''_req'') False None)
           ''./rtl_dictionary.json'' (Some exampleContent) (Some exampleDictionary)"
        "exampleArgs (Some ''pq_'') (Some ''_req'') False None"
        "[FileReadAttemptMsg ''./rtl_dictionary.json'']" exampleDictionary
        "[(''pq_'', JStr ''Placement Queue'')]" "[(''_req'', JStr ''Request line'')]"
        "''pq_''" "''Placement Queue''" "\<lambda>_. []" "''_req''" "''Request line''"]
  by (simp add: example_defs parsingArguments_def readInDictionary_def filePath_def
      fileName_def)

text \<open>
  Claim C1 as stated fails where the key is the empty string: the dictionary has the key,
  \<open>--prefix ""\<close> asks for it, and the run prints the loader's message only.
\<close>

theorem explanation_printed_counterexample:
  "args_prefix (exampleArgs (Some []) None False None) = Some [] \<and>
   py_getitem emptyKeyDictionary ''Prefixes'' = Inr (JObj [([], JStr ''No prefix'')]) \<and>
   map_of [([], JStr ''No prefix'')] [] = Some (JStr ''No prefix'') \<and>
   main (exampleEnv [''--prefix'', []] (exampleArgs (Some []) None False None)
           ''./rtl_dictionary.json'' (Some emptyKeyContent) (Some emptyKeyDictionary)) =
     ([FileReadAttemptMsg ''./rtl_dictionary.json''], Exit 0) \<and>
   ExplanationMsg [] (JStr ''No prefix'') \<notin>
     set (fst (main (exampleEnv [''--prefix'', []] (exampleArgs (Some []) None False None)
                       ''./rtl_dictionary.json'' (Some emptyKeyContent) (Some emptyKeyDictionary))))"
  by (simp add: example_defs run_defs)

text \<open>
  Claim C2, as amended. Under the same conditions, let \<open>k\<close> be a string that is not the
  empty string and is equal to no key of \<open>Prefixes\<close> (equality of strings: another case
  or a space more makes another string). Then \<open>--prefix k\<close> prints, right after the
  output of the loader, the not-found message with the kind \<open>prefix\<close>, the string \<open>k\<close>
  and the file name \<open>rtl_dictionary.json\<close>. The same holds for \<open>--suffix\<close>.
\<close>

theorem not_found_printed:
  assumes "length (sys_argv e) \<noteq> 1"
    and "parsingArguments e = Inr a"
    and "readInDictionary e (filePath a @ fileName) = (out0, Inr D)"
    and "py_getitem D ''Prefixes'' = Inr (JObj ps)"
    and "py_getitem D ''Suffixes'' = Inr (JObj ss)"
  shows "(args_prefix a = Some k \<and> k \<noteq> [] \<and> k \<notin> set (map fst ps) \<longrightarrow>
            (\<exists>rest. fst (main e) =
               out0 @ PrefixSuffixNotFoundMsg ''prefix'' k ''rtl_dictionary.json'' # rest) \<and>
            text_of r (PrefixSuffixNotFoundMsg ''prefix'' k ''rtl_dictionary.json'') =
              infoTag @ ''The prefix '' @ k @ '' could not be found in rtl_dictionary.json'') \<and>
         (args_suffix a = Some k' \<and> k' \<noteq> [] \<and> k' \<notin> set (map fst ss) \<longrightarrow>
            (\<exists>pre rest. fst (main e) =
               out0 @ pre @ PrefixSuffixNotFoundMsg ''suffix'' k' ''rtl_dictionary.json'' # rest) \<and>
            text_of r (PrefixSuffixNotFoundMsg ''suffix'' k' ''rtl_dictionary.json'') =
              infoTag @ ''The suffix '' @ k' @ '' could not be found in rtl_dictionary.json'')"
proof -
  have "map_of ps k = None" if "k \<notin> set (map fst ps)" for k
    using that by (simp add: map_of_eq_None_iff)
  moreover have "map_of ss k = None" if "k \<notin> set (map fst ss)" for k
    using that by (simp add: map_of_eq_None_iff)
  ultimately show ?thesis
    by (auto simp: main_dict [OF assms] fileName_def)
qed

text \<open>
  On the example dictionary, \<open>PQ_\<close> differs from the key \<open>pq_\<close> by its case and
  \<open>_req\<close> with a space after it from the key \<open>_req\<close>: both are reported as not found.
\<close>

theorem not_found_printed_witness:
  "(\<exists>rest.
      fst (main (exampleEnv [''--prefix'', ''PQ_'', ''--suffix'', ''_req '']
                  (exampleArgs (Some ''PQ_'') (Some ''_req '') False None)
                  ''./rtl_dictionary.json'' (Some exampleContent) (Some exampleDictionary))) =
      [FileReadAttemptMsg ''./rtl_dictionary.json''] @
      PrefixSuffixNotFoundMsg ''prefix'' ''PQ_'' ''rtl_dictionary.json'' # rest) \<and>
   text_of (\<lambda>_. []) (PrefixSuffixNotFoundMsg ''prefix'' ''PQ_'' ''rtl_dictionary.json'') =
     CHR 0x09 # ''***Info: The prefix PQ_ could not be found in rtl_dictionary.json'' \<and>
   (\<exists>pre rest.
      fst (main (exampleEnv [''--prefix'', ''PQ_'', ''--suffix'', ''_req '']
                  (exampleArgs (Some ''PQ_'') (Some ''_req '') False None)
                  ''./rtl_dictionary.json'' (Some exampleContent) (Some exampleDictionary))) =
      [FileReadAttemptMsg ''./rtl_dictionary.json''] @ pre @
      PrefixSuffixNotFoundMsg ''suffix'' ''_req '' ''rtl_dictionary.json'' # rest) \<and>
   text_of (\<lambda>_. []) (PrefixSuffixNotFoundMsg ''suffix'' ''_req '' ''rtl_dictionary.json'') =
     CHR 0x09 # ''***Info: The suffix _req  could not be found in rtl_dictionary.json''"
  using not_found_printed
    [of "exampleEnv [''--prefix'', ''PQ_'', ''--suffix'', ''_req '']
           (exampleArgs (Some ''PQ_'') (Some ''_req '') False None)
           ''./rtl_dictionary.json'' (Some exampleContent) (Some exampleDictionary)"
        "exampleArgs (Some ''PQ_'') (Some ''_req '') False None"
        "[FileReadAttemptMsg ''./rtl_dictionary.json'']" exampleDictionary
        "[(''pq_'', JStr ''Placement Queue'')]" "[(''_req'', JStr ''Request line'')]"
        "''PQ_''" "\<lambda>_. []" "''_req ''"]
  by (simp add: example_defs parsingArguments_def readInDictionary_def filePath_def
      fileName_def infoTag_def)

text \<open>
  Claim C2 as stated fails where the string is empty: no key of the example dictionary is
  the empty string, \<open>--prefix ""\<close> is given, and no not-found message is printed.
\<close>

theorem not_found_printed_counterexample:
  "args_prefix (exampleArgs (Some []) None False None) = Some [] \<and>
   py_getitem exampleDictionary ''Prefixes'' = Inr (JObj [(''pq_'', JStr ''Placement Queue'')]) \<and>
   [] \<notin> set (map fst [(''pq_'', JStr ''Placement Queue'')]) \<and>
   main (exampleEnv [''--prefix'', []] (exampleArgs (Some []) None False None)
           ''./rtl_dictionary.json'' (Some exampleContent) (Some exampleDictionary)) =
     ([FileReadAttemptMsg ''./rtl_dictionary.json''], Exit 0) \<and>
   PrefixSuffixNotFoundMsg ''prefix'' [] ''rtl_dictionary.json'' \<notin>
     set (fst (main (exampleEnv [''--prefix'', []] (exampleArgs (Some []) None False None)
                       ''./rtl_dictionary.json'' (Some exampleContent) (Some exampleDictionary))))"
  by (simp add: example_defs run_defs)

subsection \<open>Listing the dictionary\<close>

text \<open>
  Claim C3. Let the run get past the check of the arguments with \<open>--list_all\<close> set, and
  let the dictionary it loads have a \<open>Prefixes\<close> and a \<open>Suffixes\<close> section, the keys of
  each pairwise distinct. Then the last thing the run prints is one block, nothing
  before it is such a block, and the run ends with exit code 0. The block is the header
  of the prefixes, one line \<open>key: explanation\<close> for each entry of \<open>Prefixes\<close> in the order
  of the section, the header of the suffixes, and one such line for each entry of
  \<open>Suffixes\<close>; each key of a section has exactly one entry, hence one line.
\<close>

theorem list_all_output:
  assumes "length (sys_argv e) \<noteq> 1"
    and "parsingArguments e = Inr a"
    and "readInDictionary e (filePath a @ fileName) = (out0, Inr D)"
    and "py_getitem D ''Prefixes'' = Inr (JObj ps)"
    and "py_getitem D ''Suffixes'' = Inr (JObj ss)"
    and "args_list_all a"
    and "distinct (map fst ps)"
    and "distinct (map fst ss)"
  shows "(\<exists>pre.
            main e =
              (pre @
               [OutputMsg
                 (prefixSectionHeader @
                  concat (map (\<lambda>(k, v). k @ '': '' @ py_str (py_repr e) v @ ''\<newline>'') ps) @
                  suffixSectionHeader @
                  concat (map (\<lambda>(k, v). k @ '': '' @ py_str (py_repr e) v @ ''\<newline>'') ss))],
               Exit 0) \<and>
            (\<forall>s. OutputMsg s \<notin> set pre)) \<and>
         (\<forall>k \<in> set (map fst ps). length (filter (\<lambda>kv. fst kv = k) ps) = 1) \<and>
         (\<forall>k \<in> set (map fst ss). length (filter (\<lambda>kv. fst kv = k) ss) = 1)"
proof -
  have once: "length (filter (\<lambda>kv. fst kv = k) kvs) = 1"
    if "distinct (map fst kvs)" and "k \<in> set (map fst kvs)"
    for k :: string and kvs :: "(string \<times> json) list"
    using that
  proof (induction kvs)
    case Nil
    then show ?case by simp
  next
    case (Cons kv kvs)
    show ?case
    proof (cases "fst kv = k")
      case True
      with Cons.prems have "k \<notin> fst ` set kvs" by auto
      then have "filter (\<lambda>kv. fst kv = k) kvs = []" by (auto simp: filter_empty_conv)
      with True show ?thesis by simp
    next
      case False
      with Cons show ?thesis by auto
    qed
  qed
  have "\<forall>s. OutputMsg s \<notin> set
     (out0 @
      (case supplied (args_prefix a) of
         None \<Rightarrow> []
       | Some k \<Rightarrow>
           [case map_of ps k of
              Some v \<Rightarrow> ExplanationMsg k v
            | None \<Rightarrow> PrefixSuffixNotFoundMsg ''prefix'' k fileName]) @
      (case supplied (args_suffix a) of
         None \<Rightarrow> []
       | Some k \<Rightarrow>
           [case map_of ss k of
              Some v \<Rightarrow> ExplanationMsg k v
            | None \<Rightarrow> PrefixSuffixNotFoundMsg ''suffix'' k fileName]))"
    using assms(3) by (auto simp: readInDictionary_def split: option.splits)
  then show ?thesis
    using once [OF assms(7)] once [OF assms(8)] assms(6)
    by (simp add: main_dict [OF assms(1-5)] del: set_append)
qed

text \<open>
  The run \<open>--list_all\<close> on the example dictionary prints the loader's message and the
  block of the two headers with \<open>pq_: Placement Queue\<close> and \<open>_req: Request line\<close>.
\<close>

theorem list_all_output_witness:
  "args_list_all (exampleArgs None None True None) \<and>
   distinct (map fst [(''pq_'', JStr ''Placement Queue'')]) \<and>
   distinct (map fst [(''_req'', JStr ''Request line'')]) \<and>
   (\<exists>pre.
      main (exampleEnv [''--list_all''] (exampleArgs None None True None)
              ''./rtl_dictionary.json'' (Some exampleContent) (Some exampleDictionary)) =
        (pre @
         [OutputMsg
           (''=======================================\<newline>'' @
            ''            Prefixes\<newline>'' @
            ''=======================================\<newline>\<newline>'' @
            ''pq_: Placement Queue\<newline>'' @
            ''\<newline>=======================================\<newline>'' @
            ''            Suffixes\<newline>'' @
            ''=======================================\<newline>\<newline>'' @
            ''_req: Request line\<newline>'')],
         Exit 0) \<and>
      (\<forall>s. OutputMsg s \<notin> set pre))"
  using list_all_output
    [of "exampleEnv [''--list_all''] (exampleArgs None None True None)
           ''./rtl_dictionary.json'' (Some exampleContent) (Some exampleDictionary)"
        "exampleArgs None None True None"
        "[FileReadAttemptMsg ''./rtl_dictionary.json'']" exampleDictionary
        "[(''pq_'', JStr ''Placement Queue'')]" "[(''_req'', JStr ''Request line'')]"]
  by (simp add: example_defs parsingArguments_def readInDictionary_def filePath_def
      fileName_def prefixSectionHeader_def suffixSectionHeader_def)

subsection \<open>Loading the dictionary\<close>

text \<open>
  Claim C4. Let the file open and \<open>json.load\<close> fail on its content (an empty content
  is such a content). Then the loader prints the message of the read and the message
  that the file is empty, and returns the built-in dictionary; looking \<open>aref_\<close> and
  \<open>mmu_\<close> up among its prefixes and \<open>_req\<close> and \<open>_ctrl\<close> among its suffixes gives their
  explanations; and a run that loads this file goes on: it performs its three steps on
  the built-in dictionary and ends with exit code 0.
\<close>

theorem unparseable_file_default:
  assumes "files e p = Some content"
    and "json_load e content = None"
  shows "readInDictionary e p = ([FileReadAttemptMsg p, FileEmptyMsg p], Inr defaultDictionary) \<and>
         text_of r (FileEmptyMsg p) =
           infoTag @ ''The file at '' @ p @
           '' is empty... creating the dictionary from scratch'' \<and>
         lookUp ''Prefixes'' ''prefix'' defaultDictionary ''aref_'' =
           Inr (ExplanationMsg ''aref_''
             (JStr ''Indicates that the signal is to do with the auto-refresh logic.'')) \<and>
         lookUp ''Prefixes'' ''prefix'' defaultDictionary ''mmu_'' =
           Inr (ExplanationMsg ''mmu_''
             (JStr ''Indicates that the signal is coming from the memory-management unit.'')) \<and>
         lookUp ''Suffixes'' ''suffix'' defaultDictionary ''_req'' =
           Inr (ExplanationMsg ''_req'' (JStr ''Indicates a request line.'')) \<and>
         lookUp ''Suffixes'' ''suffix'' defaultDictionary ''_ctrl'' =
           Inr (ExplanationMsg ''_ctrl''
             (JStr ''Indicates a control signal or a signal from a control block.'')) \<and>
         (length (sys_argv e) \<noteq> 1 \<and> parsingArguments e = Inr a \<and>
          filePath a @ fileName = p \<longrightarrow>
            main e =
              ([FileReadAttemptMsg p, FileEmptyMsg p] @ fst (steps e a defaultDictionary),
               Exit 0))"
proof -
  have loaded: "readInDictionary e p =
      ([FileReadAttemptMsg p, FileEmptyMsg p], Inr defaultDictionary)"
    using assms by (simp add: readInDictionary_def)
  have sections:
    "py_getitem defaultDictionary ''Prefixes'' = Inr (JObj
       [(''aref_'', JStr ''Indicates that the signal is to do with the auto-refresh logic.''),
        (''mmu_'', JStr ''Indicates that the signal is coming from the memory-management unit.'')])"
    "py_getitem defaultDictionary ''Suffixes'' = Inr (JObj
       [(''_req'', JStr ''Indicates a request line.''),
        (''_ctrl'', JStr ''Indicates a control signal or a signal from a control block.'')])"
    by (simp_all add: defaultDictionary_def)
  have ends: "snd (steps e a defaultDictionary) = Exit 0"
    by (simp add: steps_dict [OF sections])
  have run: "main e =
      ([FileReadAttemptMsg p, FileEmptyMsg p] @ fst (steps e a defaultDictionary), Exit 0)"
    if "length (sys_argv e) \<noteq> 1" and "parsingArguments e = Inr a"
      and "filePath a @ fileName = p"
    using that loaded ends by (simp add: main_script script_loaded)
  show ?thesis
    using loaded run by (simp add: lookUp_dict [OF sections(1)] lookUp_dict [OF sections(2)])
qed

text \<open>
  An empty \<open>./rtl_dictionary.json\<close> and the run \<open>--prefix aref_\<close>: the two messages of
  the loader, then the explanation of \<open>aref_\<close> from the built-in dictionary.
\<close>

theorem unparseable_file_default_witness:
  "files (exampleEnv [''--prefix'', ''aref_''] (exampleArgs (Some ''aref_'') None False None)
            ''./rtl_dictionary.json'' (Some []) None) ''./rtl_dictionary.json'' = Some [] \<and>
   json_load (exampleEnv [''--prefix'', ''aref_''] (exampleArgs (Some ''aref_'') None False None)
            ''./rtl_dictionary.json'' (Some []) None) [] = None \<and>
   readInDictionary
     (exampleEnv [''--prefix'', ''aref_''] (exampleArgs (Some ''aref_'') None False None)
        ''./rtl_dictionary.json'' (Some []) None) ''./rtl_dictionary.json'' =
     ([FileReadAttemptMsg ''./rtl_dictionary.json'', FileEmptyMsg ''./rtl_dictionary.json''],
      Inr defaultDictionary) \<and>
   main (exampleEnv [''--prefix'', ''aref_''] (exampleArgs (Some ''aref_'') None False None)
           ''./rtl_dictionary.json'' (Some []) None) =
     ([FileReadAttemptMsg ''./rtl_dictionary.json'', FileEmptyMsg ''./rtl_dictionary.json'',
       ExplanationMsg ''aref_''
         (JStr ''Indicates that the signal is to do with the auto-refresh logic.'')],
      Exit 0)"
  using unparseable_file_default
    [of "exampleEnv [''--prefix'', ''aref_''] (exampleArgs (Some ''aref_'') None False None)
           ''./rtl_dictionary.json'' (Some []) None"
        "''./rtl_dictionary.json''" "[]" "\<lambda>_. []"
        "exampleArgs (Some ''aref_'') None False None"]
  by (simp add: example_defs parsingArguments_def filePath_def fileName_def steps_def
      lookUpPrefix_def lookUpSuffix_def printOutDictionary_def)

text \<open>
  Claim C5. Let the run get past the check of the arguments and let no file be at the
  path it computes. Then the loader ends with the error of \<open>open\<close> and returns no
  dictionary, and the run ends with this error uncaught, having printed nothing: no
  message of the loader, no look-up, no listing.
\<close>

theorem missing_file_aborts:
  assumes "length (sys_argv e) \<noteq> 1"
    and "parsingArguments e = Inr a"
    and "files e (filePath a @ fileName) = None"
  shows "readInDictionary e (filePath a @ fileName) = ([], Inl FileNotFoundError) \<and>
         main e = ([], Uncaught FileNotFoundError)"
  using assms by (simp add: main_def script_def readInDictionary_def)

text \<open>The run \<open>--list_all\<close> where no \<open>./rtl_dictionary.json\<close> is.\<close>

theorem missing_file_aborts_witness:
  "files (exampleEnv [''--list_all''] (exampleArgs None None True None)
            ''./rtl_dictionary.json'' None None) ''./rtl_dictionary.json'' = None \<and>
   main (exampleEnv [''--list_all''] (exampleArgs None None True None)
           ''./rtl_dictionary.json'' None None) =
     ([], Uncaught FileNotFoundError)"
  using missing_file_aborts
    [of "exampleEnv [''--list_all''] (exampleArgs None None True None)
           ''./rtl_dictionary.json'' None None"
        "exampleArgs None None True None"]
  by (simp add: example_defs parsingArguments_def filePath_def fileName_def)

subsection \<open>No arguments\<close>

text \<open>
  Claim C6. Let \<open>sys.argv\<close> hold the name of the script and nothing else. Then the run
  prints the message that no arguments were specified, and only it, and ends with exit
  code 0, whatever the files are: nothing is read, looked up or listed.
\<close>

theorem no_arguments_exit:
  assumes "sys_argv e = [name]"
  shows "main e = ([NoArgsMsg], Exit 0) \<and>
         text_of r NoArgsMsg = errorTag @ ''No input arguments were specified.''"
  using assms by (simp add: main_def)

text \<open>The script called alone, beside a dictionary file that could be read.\<close>

theorem no_arguments_exit_witness:
  "sys_argv (exampleEnv [] (exampleArgs None None False None)
      ''./rtl_dictionary.json'' (Some exampleContent) (Some exampleDictionary)) =
     [''check_rtl_meaning.py''] \<and>
   main (exampleEnv [] (exampleArgs None None False None)
      ''./rtl_dictionary.json'' (Some exampleContent) (Some exampleDictionary)) =
     ([NoArgsMsg], Exit 0) \<and>
   text_of (\<lambda>_. []) NoArgsMsg = CHR 0x09 # ''***Error: No input arguments were specified.''"
  using no_arguments_exit
    [of "exampleEnv [] (exampleArgs None None False None)
           ''./rtl_dictionary.json'' (Some exampleContent) (Some exampleDictionary)"
        "''check_rtl_meaning.py''" "\<lambda>_. []"]
  by (simp add: example_defs errorTag_def)

subsection \<open>The path of the dictionary\<close>

text \<open>
  Claim C7, as amended. The path string of the dictionary file is the value of
  \<open>--path_to_dict\<close>, where it is given and not the empty string, followed at once by
  \<open>rtl_dictionary.json\<close>: nothing is put between the two and nothing is changed in the
  value. Where the switch is absent or its value is the empty string, the path string
  is \<open>./rtl_dictionary.json\<close>. This string is the one the run opens and names: where
  \<open>open\<close> gives a file for it, the run first prints the message of the read with this
  very string.
\<close>

theorem dictionary_path:
  "(args_path_to_dict a = Some d \<and> d \<noteq> [] \<longrightarrow>
      filePath a @ fileName = d @ ''rtl_dictionary.json'') \<and>
   (args_path_to_dict a = None \<or> args_path_to_dict a = Some [] \<longrightarrow>
      filePath a @ fileName = ''./rtl_dictionary.json'') \<and>
   (length (sys_argv e) \<noteq> 1 \<and> parsingArguments e = Inr a \<and>
    files e (filePath a @ fileName) = Some c \<longrightarrow>
      (\<exists>rest. fst (main e) = FileReadAttemptMsg (filePath a @ fileName) # rest) \<and>
      text_of r (FileReadAttemptMsg (filePath a @ fileName)) =
        infoTag @ ''Trying to read in '' @ filePath a @ fileName)"
proof -
  have paths:
    "args_path_to_dict a = Some d \<and> d \<noteq> [] \<longrightarrow>
       filePath a @ fileName = d @ ''rtl_dictionary.json''"
    "args_path_to_dict a = None \<or> args_path_to_dict a = Some [] \<longrightarrow>
       filePath a @ fileName = ''./rtl_dictionary.json''"
    by (auto simp: filePath_def fileName_def)
  have first: "\<exists>rest. fst (main e) = FileReadAttemptMsg (filePath a @ fileName) # rest"
    if "length (sys_argv e) \<noteq> 1" and "parsingArguments e = Inr a"
      and "files e (filePath a @ fileName) = Some c"
    using that
    by (simp add: main_def script_def readInDictionary_def split: option.splits prod.splits)
  show ?thesis
    using paths first by simp
qed

text \<open>
  With \<open>--path_to_dict /tmp\<close> the run opens \<open>/tmprtl_dictionary.json\<close> and says so;
  without the switch the path string is \<open>./rtl_dictionary.json\<close>.
\<close>

theorem dictionary_path_witness:
  "args_path_to_dict (exampleArgs None None False (Some ''/tmp'')) = Some ''/tmp'' \<and>
   filePath (exampleArgs None None False (Some ''/tmp'')) @ fileName =
     ''/tmprtl_dictionary.json'' \<and>
   args_path_to_dict (exampleArgs None None False None) = None \<and>
   filePath (exampleArgs None None False None) @ fileName = ''./rtl_dictionary.json'' \<and>
   (\<exists>rest.
      fst (main (exampleEnv [''--path_to_dict'', ''/tmp'']
                  (exampleArgs None None False (Some ''/tmp''))
                  ''/tmprtl_dictionary.json'' (Some exampleContent) (Some exampleDictionary))) =
      FileReadAttemptMsg ''/tmprtl_dictionary.json'' # rest) \<and>
   text_of (\<lambda>_. []) (FileReadAttemptMsg ''/tmprtl_dictionary.json'') =
     CHR 0x09 # ''***Info: Trying to read in /tmprtl_dictionary.json''"
  using
    dictionary_path
      [of "exampleArgs None None False (Some ''/tmp'')" "''/tmp''"
          "exampleEnv [''--path_to_dict'', ''/tmp'']
             (exampleArgs None None False (Some ''/tmp''))
             ''/tmprtl_dictionary.json'' (Some exampleContent) (Some exampleDictionary)"
          exampleContent "\<lambda>_. []"]
    dictionary_path [of "exampleArgs None None False None"]
  by (simp add: example_defs parsingArguments_def filePath_def fileName_def infoTag_def)

text \<open>
  Claim C7 as stated fails, as a statement on the path string, where the value of the
  switch is the empty string: the value followed by the file name is
  \<open>rtl_dictionary.json\<close>, and the string the run opens and prints in the message of
  the read is \<open>./rtl_dictionary.json\<close>.
\<close>

theorem dictionary_path_counterexample:
  "args_path_to_dict (exampleArgs None None False (Some [])) = Some [] \<and>
   filePath (exampleArgs None None False (Some [])) @ fileName = ''./rtl_dictionary.json'' \<and>
   filePath (exampleArgs None None False (Some [])) @ fileName \<noteq>
     [] @ ''rtl_dictionary.json'' \<and>
   main (exampleEnv [''--path_to_dict'', []] (exampleArgs None None False (Some []))
           ''./rtl_dictionary.json'' (Some exampleContent) (Some exampleDictionary)) =
     ([FileReadAttemptMsg ''./rtl_dictionary.json''], Exit 0) \<and>
   text_of (\<lambda>_. []) (FileReadAttemptMsg ''./rtl_dictionary.json'') \<noteq>
     text_of (\<lambda>_. []) (FileReadAttemptMsg ([] @ ''rtl_dictionary.json''))"
  by (simp add: example_defs run_defs)

lemma lookUp_message:
  "lookUp section kind D key = Inr m \<Longrightarrow>
   (\<exists>v. m = ExplanationMsg key v) \<or> m = PrefixSuffixNotFoundMsg kind key fileName"
  by (auto simp: lookUp_def split: sum.splits if_splits)

lemma lookUpPrefix_no_usage:
  "lookUpPrefix a D = Inr out1 \<Longrightarrow> UnsupportedScriptUsageMsg \<notin> set out1"
  by (auto simp: lookUpPrefix_def split: option.splits sum.splits dest: lookUp_message)

lemma lookUpSuffix_no_usage:
  "lookUpSuffix a D = Inr out2 \<Longrightarrow> UnsupportedScriptUsageMsg \<notin> set out2"
  by (auto simp: lookUpSuffix_def split: option.splits sum.splits dest: lookUp_message)

lemma printOutDictionary_no_usage:
  "printOutDictionary e a D = Inr out3 \<Longrightarrow> UnsupportedScriptUsageMsg \<notin> set out3"
  by (auto simp: printOutDictionary_def split: if_splits sum.splits)

lemma steps_no_usage: "UnsupportedScriptUsageMsg \<notin> set (fst (steps e a D))"
  by (auto simp: steps_def split: sum.splits
      dest: lookUpPrefix_no_usage lookUpSuffix_no_usage printOutDictionary_no_usage)

lemma readInDictionary_no_usage:
  "UnsupportedScriptUsageMsg \<notin> set (fst (readInDictionary e p))"
  by (simp add: readInDictionary_def split: option.splits)

lemma script_no_usage: "UnsupportedScriptUsageMsg \<notin> set (fst (script e a))"
proof (cases "readInDictionary e (filePath a @ fileName)")
  case (Pair out0 res)
  have out0: "UnsupportedScriptUsageMsg \<notin> set out0"
    using readInDictionary_no_usage [of e "filePath a @ fileName"] Pair by simp
  show ?thesis
  proof (cases res)
    case (Inl err)
    with Pair out0 show ?thesis by (simp add: script_def)
  next
    case (Inr D)
    with Pair out0 steps_no_usage [of e a D] show ?thesis
      by (auto simp: script_def split: prod.splits)
  qed
qed

lemma main_no_usage: "UnsupportedScriptUsageMsg \<notin> set (fst (main e))"
  by (simp add: main_def script_no_usage split: sum.splits)

subsection \<open>Switches given together\<close>

text \<open>
  Claim C8, as amended. No run prints the message that only one switch should be
  supplied at a time. And where \<open>--prefix\<close> and \<open>--suffix\<close> are given with values that are
  not the empty string, together with \<open>--list_all\<close>, on a loaded dictionary with a
  \<open>Prefixes\<close> and a \<open>Suffixes\<close> section, the look-up of the prefix, the look-up of the
  suffix and the listing are all performed on this one dictionary, and the run prints
  their three messages in this order after the output of the loader and ends with
  exit code 0.
\<close>

theorem switches_combine:
  "UnsupportedScriptUsageMsg \<notin> set (fst (main e)) \<and>
   (length (sys_argv e) \<noteq> 1 \<and> parsingArguments e = Inr a \<and>
    readInDictionary e (filePath a @ fileName) = (out0, Inr D) \<and>
    py_getitem D ''Prefixes'' = Inr (JObj ps) \<and>
    py_getitem D ''Suffixes'' = Inr (JObj ss) \<and>
    args_prefix a = Some kp \<and> kp \<noteq> [] \<and>
    args_suffix a = Some ks \<and> ks \<noteq> [] \<and> args_list_all a \<longrightarrow>
      (\<exists>m1 m2 m3.
         lookUp ''Prefixes'' ''prefix'' D kp = Inr m1 \<and>
         lookUp ''Suffixes'' ''suffix'' D ks = Inr m2 \<and>
         printOutDictionary e a D = Inr [m3] \<and>
         main e = (out0 @ [m1, m2, m3], Exit 0)))"
proof -
  have "\<exists>m1 m2 m3.
         lookUp ''Prefixes'' ''prefix'' D kp = Inr m1 \<and>
         lookUp ''Suffixes'' ''suffix'' D ks = Inr m2 \<and>
         printOutDictionary e a D = Inr [m3] \<and>
         main e = (out0 @ [m1, m2, m3], Exit 0)"
    if run: "length (sys_argv e) \<noteq> 1" "parsingArguments e = Inr a"
      "readInDictionary e (filePath a @ fileName) = (out0, Inr D)"
      and sections: "py_getitem D ''Prefixes'' = Inr (JObj ps)"
        "py_getitem D ''Suffixes'' = Inr (JObj ss)"
      and switches: "args_prefix a = Some kp" "kp \<noteq> []" "args_suffix a = Some ks" "ks \<noteq> []"
        "args_list_all a"
  proof -
    obtain m1 where m1: "lookUp ''Prefixes'' ''prefix'' D kp = Inr m1"
      by (simp add: lookUp_dict [OF sections(1)])
    obtain m2 where m2: "lookUp ''Suffixes'' ''suffix'' D ks = Inr m2"
      by (simp add: lookUp_dict [OF sections(2)])
    obtain m3 where m3: "printOutDictionary e a D = Inr [m3]"
      using sections switches(5) by (simp add: printOutDictionary_def)
    have "steps e a D = ([m1, m2, m3], Exit 0)"
      using m1 m2 m3 switches by (simp add: steps_def lookUpPrefix_def lookUpSuffix_def)
    then have "main e = (out0 @ [m1, m2, m3], Exit 0)"
      by (simp add: main_script [OF run(1,2)] script_loaded [OF run(3)])
    with m1 m2 m3 show ?thesis by blast
  qed
  with main_no_usage [of e] show ?thesis by blast
qed

text \<open>
  The run \<open>--prefix pq_ --suffix _ack --list_all\<close> on the example dictionary: the
  explanation of \<open>pq_\<close>, the not-found message of \<open>_ack\<close> and the listing, in this order.
\<close>

theorem switches_combine_witness:
  "UnsupportedScriptUsageMsg \<notin>
     set (fst (main (exampleEnv [''--prefix'', ''pq_'', ''--suffix'', ''_ack'', ''--list_all'']
                       (exampleArgs (Some ''pq_'') (Some ''_ack'') True None)
                       ''./rtl_dictionary.json'' (Some exampleContent) (Some exampleDictionary)))) \<and>
   (\<exists>m3.
      printOutDictionary
        (exampleEnv [''--prefix'', ''pq_'', ''--suffix'', ''_ack'', ''--list_all'']
           (exampleArgs (Some ''pq_'') (Some ''_ack'') True None)
           ''./rtl_dictionary.json'' (Some exampleContent) (Some exampleDictionary))
        (exampleArgs (Some ''pq_'') (Some ''_ack'') True None) exampleDictionary = Inr [m3] \<and>
      main (exampleEnv [''--prefix'', ''pq_'', ''--suffix'', ''_ack'', ''--list_all'']
              (exampleArgs (Some ''pq_'') (Some ''_ack'') True None)
              ''./rtl_dictionary.json'' (Some exampleContent) (Some exampleDictionary)) =
        ([FileReadAttemptMsg ''./rtl_dictionary.json'',
          ExplanationMsg ''pq_'' (JStr ''Placement Queue''),
          PrefixSuffixNotFoundMsg ''suffix'' ''_ack'' ''rtl_dictionary.json'',
          m3],
         Exit 0))"
  using switches_combine
    [of "exampleEnv [''--prefix'', ''pq_'', ''--suffix'', ''_ack'', ''--list_all'']
           (exampleArgs (Some ''pq_'') (Some ''_ack'') True None)
           ''./rtl_dictionary.json'' (Some exampleContent) (Some exampleDictionary)"
        "exampleArgs (Some ''pq_'') (Some ''_ack'') True None"
        "[FileReadAttemptMsg ''./rtl_dictionary.json'']" exampleDictionary
        "[(''pq_'', JStr ''Placement Queue'')]" "[(''_req'', JStr ''Request line'')]"
        "''pq_''" "''_ack''"]
  by (simp add: example_defs parsingArguments_def readInDictionary_def filePath_def
      fileName_def lookUp_def)

text \<open>
  Claim C8 as stated fails where a switch is given with the empty string: in the run
  \<open>--prefix "" --suffix _req --list_all\<close> all three switches are supplied, and the
  look-up of the prefix is not performed; the run prints the explanation of the suffix
  and the listing only.
\<close>

theorem switches_combine_counterexample:
  "args_prefix (exampleArgs (Some []) (Some ''_req'') True None) = Some [] \<and>
   args_suffix (exampleArgs (Some []) (Some ''_req'') True None) = Some ''_req'' \<and>
   args_list_all (exampleArgs (Some []) (Some ''_req'') True None) \<and>
   lookUpPrefix (exampleArgs (Some []) (Some ''_req'') True None) exampleDictionary = Inr [] \<and>
   main (exampleEnv [''--prefix'', [], ''--suffix'', ''_req'', ''--list_all'']
           (exampleArgs (Some []) (Some ''_req'') True None)
           ''./rtl_dictionary.json'' (Some exampleContent) (Some exampleDictionary)) =
     ([FileReadAttemptMsg ''./rtl_dictionary.json'',
       ExplanationMsg ''_req'' (JStr ''Request line''),
       OutputMsg
         (''=======================================\<newline>'' @
          ''            Prefixes\<newline>'' @
          ''=======================================\<newline>\<newline>'' @
          ''pq_: Placement Queue\<newline>'' @
          ''\<newline>=======================================\<newline>'' @
          ''            Suffixes\<newline>'' @
          ''=======================================\<newline>\<newline>'' @
          ''_req: Request line\<newline>'')],
      Exit 0)"
  by (simp add: example_defs run_defs)

subsection \<open>A dictionary without a section\<close>

text \<open>
  Claim C9. Let the run get past the check of the arguments and let the content of
  the dictionary file decode to an object. Then the loader returns this object as it
  is, after the message of the read alone. If the object has no key \<open>Prefixes\<close>, a
  requested look-up of a prefix ends the run with the uncaught key error of
  \<open>Prefixes\<close>. If it has no key \<open>Suffixes\<close>, a requested look-up of a suffix that is
  reached (the look-up of the prefix before it raised nothing) ends the run with the
  uncaught key error of \<open>Suffixes\<close>. If it lacks one of the two keys, a requested
  listing that is reached ends the run with the uncaught key error of the first
  section that is missing. What was printed before stays printed.
\<close>

theorem missing_section_key_error:
  assumes "length (sys_argv e) \<noteq> 1"
    and "parsingArguments e = Inr a"
    and "files e (filePath a @ fileName) = Some c"
    and "json_load e c = Some (JObj kvs)"
  shows "readInDictionary e (filePath a @ fileName) =
           ([FileReadAttemptMsg (filePath a @ fileName)], Inr (JObj kvs)) \<and>
         (''Prefixes'' \<notin> set (map fst kvs) \<and> args_prefix a = Some k \<and> k \<noteq> [] \<longrightarrow>
            main e =
              ([FileReadAttemptMsg (filePath a @ fileName)],
               Uncaught (KeyError ''Prefixes''))) \<and>
         (''Suffixes'' \<notin> set (map fst kvs) \<and> args_suffix a = Some k' \<and> k' \<noteq> [] \<and>
          lookUpPrefix a (JObj kvs) = Inr out1 \<longrightarrow>
            main e =
              (FileReadAttemptMsg (filePath a @ fileName) # out1,
               Uncaught (KeyError ''Suffixes''))) \<and>
         (args_list_all a \<and> lookUpPrefix a (JObj kvs) = Inr out1 \<and>
          lookUpSuffix a (JObj kvs) = Inr out2 \<longrightarrow>
            (''Prefixes'' \<notin> set (map fst kvs) \<longrightarrow>
               main e =
                 (FileReadAttemptMsg (filePath a @ fileName) # out1 @ out2,
                  Uncaught (KeyError ''Prefixes''))) \<and>
            (''Prefixes'' \<in> set (map fst kvs) \<and> ''Suffixes'' \<notin> set (map fst kvs) \<longrightarrow>
               main e =
                 (FileReadAttemptMsg (filePath a @ fileName) # out1 @ out2,
                  Uncaught (KeyError ''Suffixes''))))"
proof -
  let ?p = "filePath a @ fileName"
  have loaded: "readInDictionary e ?p = ([FileReadAttemptMsg ?p], Inr (JObj kvs))"
    using assms(3,4) by (simp add: readInDictionary_def)
  have run: "main e = (FileReadAttemptMsg ?p # fst (steps e a (JObj kvs)),
      snd (steps e a (JObj kvs)))"
    by (simp add: main_script [OF assms(1,2)] script_loaded [OF loaded])
  have missing: "py_getitem (JObj kvs) s = Inl (KeyError s)" if "s \<notin> set (map fst kvs)" for s
    using that by (simp add: map_of_eq_None_iff [THEN iffD2])
  have present: "\<exists>v. py_getitem (JObj kvs) s = Inr v" if "s \<in> set (map fst kvs)" for s
  proof (cases "map_of kvs s")
    case None
    with that show ?thesis by (simp add: map_of_eq_None_iff)
  next
    case (Some v)
    then show ?thesis by simp
  qed
  have prefix_case:
    "main e = ([FileReadAttemptMsg ?p], Uncaught (KeyError ''Prefixes''))"
    if "''Prefixes'' \<notin> set (map fst kvs)" and "args_prefix a = Some k" and "k \<noteq> []"
    using that
    by (simp add: run steps_def lookUpPrefix_def lookUp_missing_section)
  have suffix_case:
    "main e = (FileReadAttemptMsg ?p # out1, Uncaught (KeyError ''Suffixes''))"
    if "''Suffixes'' \<notin> set (map fst kvs)" and "args_suffix a = Some k'" and "k' \<noteq> []"
      and "lookUpPrefix a (JObj kvs) = Inr out1"
    using that
    by (simp add: run steps_def lookUpSuffix_def lookUp_missing_section)
  have listing_prefixes:
    "main e = (FileReadAttemptMsg ?p # out1 @ out2, Uncaught (KeyError ''Prefixes''))"
    if "args_list_all a" and "lookUpPrefix a (JObj kvs) = Inr out1"
      and "lookUpSuffix a (JObj kvs) = Inr out2" and "''Prefixes'' \<notin> set (map fst kvs)"
    using that missing [OF that(4)]
    by (simp add: run steps_def printOutDictionary_def del: py_getitem.simps)
  have listing_suffixes:
    "main e = (FileReadAttemptMsg ?p # out1 @ out2, Uncaught (KeyError ''Suffixes''))"
    if "args_list_all a" and "lookUpPrefix a (JObj kvs) = Inr out1"
      and "lookUpSuffix a (JObj kvs) = Inr out2" and "''Prefixes'' \<in> set (map fst kvs)"
      and "''Suffixes'' \<notin> set (map fst kvs)"
  proof -
    from present [OF that(4)] obtain v where "py_getitem (JObj kvs) ''Prefixes'' = Inr v" ..
    with that(1-3) missing [OF that(5)] show ?thesis
      by (simp add: run steps_def printOutDictionary_def del: py_getitem.simps)
  qed
  show ?thesis
    using loaded prefix_case suffix_case listing_prefixes listing_suffixes by blast
qed

text \<open>
  A file with a \<open>Suffixes\<close> section only: \<open>--prefix pq_\<close> ends in the key error of
  \<open>Prefixes\<close>, and so does \<open>--list_all\<close>. A file with a \<open>Prefixes\<close> section only:
  \<open>--prefix pq_ --suffix _req\<close> prints the explanation of \<open>pq_\<close> and ends in the key
  error of \<open>Suffixes\<close>, and \<open>--list_all\<close> ends in it.
\<close>

theorem missing_section_key_error_witness:
  "main (exampleEnv [''--prefix'', ''pq_''] (exampleArgs (Some ''pq_'') None False None)
           ''./rtl_dictionary.json'' (Some suffixesOnlyContent) (Some suffixesOnlyDictionary)) =
     ([FileReadAttemptMsg ''./rtl_dictionary.json''], Uncaught (KeyError ''Prefixes'')) \<and>
   main (exampleEnv [''--list_all''] (exampleArgs None None True None)
           ''./rtl_dictionary.json'' (Some suffixesOnlyContent) (Some suffixesOnlyDictionary)) =
     ([FileReadAttemptMsg ''./rtl_dictionary.json''], Uncaught (KeyError ''Prefixes'')) \<and>
   main (exampleEnv [''--prefix'', ''pq_'', ''--suffix'', ''_req'']
           (exampleArgs (Some ''pq_'') (Some ''_req'') False None)
           ''./rtl_dictionary.json'' (Some prefixesOnlyContent) (Some prefixesOnlyDictionary)) =
     ([FileReadAttemptMsg ''./rtl_dictionary.json'',
       ExplanationMsg ''pq_'' (JStr ''Placement Queue'')],
      Uncaught (KeyError ''Suffixes'')) \<and>
   main (exampleEnv [''--list_all''] (exampleArgs None None True None)
           ''./rtl_dictionary.json'' (Some prefixesOnlyContent) (Some prefixesOnlyDictionary)) =
     ([FileReadAttemptMsg ''./rtl_dictionary.json''], Uncaught (KeyError ''Suffixes''))"
  using
    missing_section_key_error
      [of "exampleEnv [''--prefix'', ''pq_''] (exampleArgs (Some ''pq_'') None False None)
             ''./rtl_dictionary.json'' (Some suffixesOnlyContent) (Some suffixesOnlyDictionary)"
          "exampleArgs (Some ''pq_'') None False None" suffixesOnlyContent
          "[(''Suffixes'', JObj [(''_req'', JStr ''Request line'')])]" "''pq_''"]
    missing_section_key_error
      [of "exampleEnv [''--list_all''] (exampleArgs None None True None)
             ''./rtl_dictionary.json'' (Some suffixesOnlyContent) (Some suffixesOnlyDictionary)"
          "exampleArgs None None True None" suffixesOnlyContent
          "[(''Suffixes'', JObj [(''_req'', JStr ''Request line'')])]" _ _ "[]" "[]"]
    missing_section_key_error
      [of "exampleEnv [''--prefix'', ''pq_'', ''--suffix'', ''_req'']
             (exampleArgs (Some ''pq_'') (Some ''_req'') False None)
             ''./rtl_dictionary.json'' (Some prefixesOnlyContent) (Some prefixesOnlyDictionary)"
          "exampleArgs (Some ''pq_'') (Some ''_req'') False None" prefixesOnlyContent
          "[(''Prefixes'', JObj [(''pq_'', JStr ''Placement Queue'')])]" _ "''_req''"
          "[ExplanationMsg ''pq_'' (JStr ''Placement Queue'')]"]
    missing_section_key_error
      [of "exampleEnv [''--list_all''] (exampleArgs None None True None)
             ''./rtl_dictionary.json'' (Some prefixesOnlyContent) (Some prefixesOnlyDictionary)"
          "exampleArgs None None True None" prefixesOnlyContent
          "[(''Prefixes'', JObj [(''pq_'', JStr ''Placement Queue'')])]" _ _ "[]" "[]"]
  by (simp add: example_defs parsingArguments_def filePath_def fileName_def
      lookUpPrefix_def lookUpSuffix_def lookUp_def)

subsection \<open>Switches with the empty string\<close>

text \<open>
  Claim C10. A namespace in which \<open>--prefix\<close>, \<open>--suffix\<close> or \<open>--path_to_dict\<close> has the
  empty string for its value runs as the namespace in which this switch is absent:
  the look-up of an empty prefix or suffix prints nothing, neither an explanation nor
  a not-found message, on any loaded value, and an empty path gives the directory
  \<open>./\<close>.
\<close>

theorem empty_value_as_absent:
  "script e (a\<lparr>args_prefix := Some []\<rparr>) = script e (a\<lparr>args_prefix := None\<rparr>) \<and>
   script e (a\<lparr>args_suffix := Some []\<rparr>) = script e (a\<lparr>args_suffix := None\<rparr>) \<and>
   script e (a\<lparr>args_path_to_dict := Some []\<rparr>) = script e (a\<lparr>args_path_to_dict := None\<rparr>) \<and>
   lookUpPrefix (a\<lparr>args_prefix := Some []\<rparr>) D = Inr [] \<and>
   lookUpSuffix (a\<lparr>args_suffix := Some []\<rparr>) D = Inr [] \<and>
   filePath (a\<lparr>args_path_to_dict := Some []\<rparr>) = ''./''"
proof -
  have no_prefix: "lookUpPrefix (a\<lparr>args_prefix := Some []\<rparr>) D' = Inr []"
    and no_suffix: "lookUpSuffix (a\<lparr>args_suffix := Some []\<rparr>) D' = Inr []" for D'
    by (simp_all add: lookUpPrefix_def lookUpSuffix_def)
  have path: "filePath (a\<lparr>args_path_to_dict := Some []\<rparr>) = ''./''"
    "filePath (a\<lparr>args_path_to_dict := None\<rparr>) = ''./''"
    by (simp_all add: filePath_def)
  have "steps e (a\<lparr>args_prefix := Some []\<rparr>) D' = steps e (a\<lparr>args_prefix := None\<rparr>) D'"
    and "steps e (a\<lparr>args_suffix := Some []\<rparr>) D' = steps e (a\<lparr>args_suffix := None\<rparr>) D'"
    and "steps e (a\<lparr>args_path_to_dict := Some []\<rparr>) D' =
      steps e (a\<lparr>args_path_to_dict := None\<rparr>) D'" for D'
    by (simp_all add: steps_def lookUpPrefix_def lookUpSuffix_def printOutDictionary_def
        cong: sum.case_cong)
  then have "script e (a\<lparr>args_prefix := Some []\<rparr>) = script e (a\<lparr>args_prefix := None\<rparr>)"
    and "script e (a\<lparr>args_suffix := Some []\<rparr>) = script e (a\<lparr>args_suffix := None\<rparr>)"
    and "script e (a\<lparr>args_path_to_dict := Some []\<rparr>) =
      script e (a\<lparr>args_path_to_dict := None\<rparr>)"
    by (simp_all add: script_def filePath_def cong: prod.case_cong sum.case_cong)
  with no_prefix no_suffix path(1) show ?thesis by simp
qed

text \<open>
  The run \<open>--prefix "" --suffix "" --path_to_dict ""\<close> beside the example dictionary
  reads \<open>./rtl_dictionary.json\<close> and prints the message of the read only.
\<close>

theorem empty_value_as_absent_witness:
  "script
     (exampleEnv [''--prefix'', [], ''--suffix'', [], ''--path_to_dict'', []]
        (exampleArgs (Some []) (Some []) False (Some []))
        ''./rtl_dictionary.json'' (Some exampleContent) (Some exampleDictionary))
     ((exampleArgs (Some ''pq_'') (Some []) False (Some []))\<lparr>args_prefix := Some []\<rparr>) =
   script
     (exampleEnv [''--prefix'', [], ''--suffix'', [], ''--path_to_dict'', []]
        (exampleArgs (Some []) (Some []) False (Some []))
        ''./rtl_dictionary.json'' (Some exampleContent) (Some exampleDictionary))
     ((exampleArgs (Some ''pq_'') (Some []) False (Some []))\<lparr>args_prefix := None\<rparr>) \<and>
   main (exampleEnv [''--prefix'', [], ''--suffix'', [], ''--path_to_dict'', []]
           (exampleArgs (Some []) (Some []) False (Some []))
           ''./rtl_dictionary.json'' (Some exampleContent) (Some exampleDictionary)) =
     ([FileReadAttemptMsg ''./rtl_dictionary.json''], Exit 0)"
  using empty_value_as_absent
    [of "exampleEnv [''--prefix'', [], ''--suffix'', [], ''--path_to_dict'', []]
           (exampleArgs (Some []) (Some []) False (Some []))
           ''./rtl_dictionary.json'' (Some exampleContent) (Some exampleDictionary)"
        "exampleArgs (Some ''pq_'') (Some []) False (Some [])" exampleDictionary]
  by (simp add: example_defs run_defs)

subsection \<open>A loaded value that is not an object\<close>

text \<open>
  Beside the claims: the loader checks nothing of what it decodes. A value that is a
  list, a string, a number, a truth value or \<open>null\<close> cannot be indexed by a section
  name, so every requested look-up on it raises a type error, and so does a requested
  listing.
\<close>

theorem not_an_object_type_error:
  assumes "\<forall>kvs. D \<noteq> JObj kvs"
  shows "lookUp section kind D key = Inl TypeError \<and>
         (args_list_all a \<longrightarrow> printOutDictionary e a D = Inl TypeError)"
  using assms by (cases D) (simp_all add: lookUp_def printOutDictionary_def)

text \<open>A file that holds the empty list, and the run \<open>--prefix pq_\<close>.\<close>

theorem not_an_object_type_error_witness:
  "(\<forall>kvs. JArr [] \<noteq> JObj kvs) \<and>
   lookUp ''Prefixes'' ''prefix'' (JArr []) ''pq_'' = Inl TypeError \<and>
   main (exampleEnv [''--prefix'', ''pq_''] (exampleArgs (Some ''pq_'') None False None)
           ''./rtl_dictionary.json'' (Some ''[]'') (Some (JArr []))) =
     ([FileReadAttemptMsg ''./rtl_dictionary.json''], Uncaught TypeError)"
  using not_an_object_type_error [of "JArr []" "''Prefixes''" "''prefix''" "''pq_''"]
  by (simp add: example_defs run_defs)

end
